theory Spec2Isabelle
  imports Complex_Main "HOL-Library.AList"
begin

section \<open>Path model\<close>

text \<open>
  Python's \<^verbatim>\<open>str.split(sep)\<close> for a one-character separator: the pieces between
  the separators, empty pieces included, so the result is never empty.
\<close>

fun split :: "char \<Rightarrow> string \<Rightarrow> string list" where
  "split sep [] = [[]]"
| "split sep (c # cs) =
     (if c = sep then [] # split sep cs
      else (case split sep cs of
              [] \<Rightarrow> [[c]]
            | w # ws \<Rightarrow> (c # w) # ws))"

text \<open>
  \<^verbatim>\<open>decompose_path\<close> (storage_handlers.py, line 61):
  \<^verbatim>\<open>tuple((path_entry for path_entry in path.split('/') if path_entry != ''))\<close>
\<close>

definition decompose_path :: "string \<Rightarrow> string list" where
  "decompose_path path = filter (\<lambda>path_entry. path_entry \<noteq> '''') (split CHR ''/'' path)"

section \<open>Python values\<close>

text \<open>
  The classes whose instances the handlers meet. \<open>Cls_Iterable\<close> is the abstract base class
  \<^verbatim>\<open>collections.Iterable\<close>; \<open>Cls_type\<close> is \<^verbatim>\<open>type\<close>, the class of every class object.
\<close>

datatype pyclass =
    Cls_int | Cls_float | Cls_str | Cls_bool | Cls_NoneType | Cls_list | Cls_tuple
  | Cls_ndarray | Cls_Quantity | Cls_Unit | Cls_dict | Cls_type | Cls_Iterable

text \<open>
  Python values. An array carries its shape and its elements in row-major order. A unit is
  represented by its string form \<^verbatim>\<open>str(unit)\<close>, a quantity by its payload and the string form
  of its unit. A class object is a value too: it is what \<^verbatim>\<open>type(data)\<close> returns.
\<close>

datatype pyval =
    PNone
  | PBool bool
  | PInt int
  | PFloat real
  | PStr string
  | PList "pyval list"
  | PTuple "pyval list"
  | PArray "nat list" "pyval list"
  | PUnit string
  | PQuantity pyval string
  | PDict "(string \<times> pyval) list"
  | PClass pyclass

text \<open>\<^verbatim>\<open>type(v)\<close>\<close>

fun py_type :: "pyval \<Rightarrow> pyclass" where
  "py_type PNone = Cls_NoneType"
| "py_type (PBool b) = Cls_bool"
| "py_type (PInt n) = Cls_int"
| "py_type (PFloat r) = Cls_float"
| "py_type (PStr s) = Cls_str"
| "py_type (PList xs) = Cls_list"
| "py_type (PTuple xs) = Cls_tuple"
| "py_type (PArray shp xs) = Cls_ndarray"
| "py_type (PUnit u) = Cls_Unit"
| "py_type (PQuantity v u) = Cls_Quantity"
| "py_type (PDict kvs) = Cls_dict"
| "py_type (PClass c) = Cls_type"

text \<open>
  \<^verbatim>\<open>issubclass\<close>: \<^verbatim>\<open>bool\<close> derives from \<^verbatim>\<open>int\<close>; a class is a virtual subclass of
  \<^verbatim>\<open>Iterable\<close> when it defines \<^verbatim>\<open>__iter__\<close>, which \<^verbatim>\<open>type\<close> does not.
\<close>

fun issubclass :: "pyclass \<Rightarrow> pyclass \<Rightarrow> bool" where
  "issubclass c Cls_Iterable =
     (c = Cls_str \<or> c = Cls_list \<or> c = Cls_tuple \<or> c = Cls_ndarray \<or> c = Cls_dict
      \<or> c = Cls_Quantity \<or> c = Cls_Iterable)"
| "issubclass c Cls_int = (c = Cls_int \<or> c = Cls_bool)"
| "issubclass c d = (c = d)"

definition isinstance :: "pyval \<Rightarrow> pyclass \<Rightarrow> bool" where
  "isinstance v c = issubclass (py_type v) c"

section \<open>Exceptions\<close>

datatype key_error =
    Missing_key
  | No_variable_found
  | No_mapped_type_handler
  | No_known_type_handler

datatype attribute_error =
    No_attribute
  | Cannot_autodetect_type

datatype type_error =
    Invalid_data_type
  | Cannot_overwrite
  | Cannot_append
  | Unknown_quantity_type
  | Length_not_integer
  | Not_iterable
  | Not_subscriptable
  | Not_constructible
  | No_len
  | No_item_assignment
  | Unsupported_operand
  | Unhashable

datatype value_error =
    Shape_mismatch
  | Unit_mismatch
  | Negative_length
  | Ambiguous_truth_value
  | Cannot_unpack
  | Invalid_literal

text \<open>
  \<open>TypeError Cannot_overwrite\<close> is the error with the message ``was saved as appendable
  data! Cannot overwrite, must use append()'' and \<open>TypeError Cannot_append\<close> the one with
  ``was saved as static, non-appendable data! Cannot append, must use write()''.
  \<open>SubstrateError\<close> stands for an error raised by the container library itself.
\<close>

datatype error =
    KeyError key_error
  | IndexError
  | AttributeError attribute_error
  | UnboundLocalError
  | NotImplementedError
  | ImportError
  | TypeError type_error
  | ValueError value_error
  | SubstrateError

text \<open>The truth value of a Python value, as \<^verbatim>\<open>if v:\<close> computes it.\<close>

fun truthy :: "pyval \<Rightarrow> error + bool" where
  "truthy PNone = Inr False"
| "truthy (PBool b) = Inr b"
| "truthy (PInt n) = Inr (n \<noteq> 0)"
| "truthy (PFloat r) = Inr (r \<noteq> 0)"
| "truthy (PStr s) = Inr (s \<noteq> [])"
| "truthy (PList xs) = Inr (xs \<noteq> [])"
| "truthy (PTuple xs) = Inr (xs \<noteq> [])"
| "truthy (PDict kvs) = Inr (kvs \<noteq> [])"
| "truthy (PArray shp xs) =
     (case xs of
        [] \<Rightarrow> Inr False
      | [x] \<Rightarrow> truthy x
      | _ \<Rightarrow> Inl (ValueError Ambiguous_truth_value))"
| "truthy (PUnit u) = Inr True"
| "truthy (PQuantity v u) = truthy v"
| "truthy (PClass c) = Inr True"

text \<open>Decimal digits of a natural number, for \<^verbatim>\<open>'iterable{}'.format(length)\<close>.\<close>

definition digit_char :: "nat \<Rightarrow> char" where
  "digit_char d =
     (if d = 0 then CHR ''0'' else if d = 1 then CHR ''1'' else if d = 2 then CHR ''2''
      else if d = 3 then CHR ''3'' else if d = 4 then CHR ''4'' else if d = 5 then CHR ''5''
      else if d = 6 then CHR ''6'' else if d = 7 then CHR ''7'' else if d = 8 then CHR ''8''
      else CHR ''9'')"

fun string_of_nat :: "nat \<Rightarrow> string" where
  "string_of_nat n =
     (if n < 10 then [digit_char n]
      else string_of_nat (n div 10) @ [digit_char (n mod 10)])"

text \<open>\<^verbatim>\<open>needle in haystack\<close> on strings.\<close>

fun starts_with :: "string \<Rightarrow> string \<Rightarrow> bool" where
  "starts_with [] s = True"
| "starts_with (p # ps) [] = False"
| "starts_with (p # ps) (c # cs) = (p = c \<and> starts_with ps cs)"

fun contains :: "string \<Rightarrow> string \<Rightarrow> bool" where
  "contains needle [] = (needle = [])"
| "contains needle (c # cs) = (starts_with needle (c # cs) \<or> contains needle cs)"

text \<open>
  Modelled from the spec: \<^verbatim>\<open>typename\<close> of \<^verbatim>\<open>Yank/utils.py\<close>, which is not among the sources.
  The specification lists the element-type names it produces: \<^verbatim>\<open>int\<close>, \<^verbatim>\<open>float\<close>,
  \<^verbatim>\<open>list\<close>, a module-qualified name ending in \<^verbatim>\<open>ndarray\<close>, and \<^verbatim>\<open>NoneType\<close>.
\<close>

fun typename :: "pyclass \<Rightarrow> string" where
  "typename Cls_int = ''int''"
| "typename Cls_float = ''float''"
| "typename Cls_str = ''str''"
| "typename Cls_bool = ''bool''"
| "typename Cls_NoneType = ''NoneType''"
| "typename Cls_list = ''list''"
| "typename Cls_tuple = ''tuple''"
| "typename Cls_ndarray = ''numpy.ndarray''"
| "typename Cls_Quantity = ''simtk.unit.quantity.Quantity''"
| "typename Cls_Unit = ''simtk.unit.unit.Unit''"
| "typename Cls_dict = ''dict''"
| "typename Cls_type = ''type''"
| "typename Cls_Iterable = ''collections.Iterable''"

section \<open>The container substrate\<close>

text \<open>
  The container library is outside the repository. It is modelled as the primitive the
  specification describes: groups holding attributes, dimensions, child groups and
  variables; a variable has a datatype, named dimensions, a shape, attributes and its stored
  elements in row-major order. Dictionaries keep insertion order, so they are association
  lists.
\<close>

record nc_variable =
  var_datatype :: pyval
  var_dimensions :: "string list"
  var_shape :: "nat list"
  var_attrs :: "(string \<times> pyval) list"
  var_data :: "pyval list"

datatype nc_group = Group
  (grp_attrs: "(string \<times> pyval) list")
  (grp_dimensions: "(string \<times> nat) list")
  (grp_groups: "(string \<times> nc_group) list")
  (grp_variables: "(string \<times> nc_variable) list")

definition empty_group :: nc_group where
  "empty_group = Group [] [] [] []"

definition has_key :: "('k \<times> 'v) list \<Rightarrow> 'k \<Rightarrow> bool" where
  "has_key al k = (map_of al k \<noteq> None)"

definition set_grp_attrs :: "(string \<times> pyval) list \<Rightarrow> nc_group \<Rightarrow> nc_group" where
  "set_grp_attrs a g = Group a (grp_dimensions g) (grp_groups g) (grp_variables g)"


definition set_grp_groups :: "(string \<times> nc_group) list \<Rightarrow> nc_group \<Rightarrow> nc_group" where
  "set_grp_groups gs g = Group (grp_attrs g) (grp_dimensions g) gs (grp_variables g)"

definition set_grp_variables :: "(string \<times> nc_variable) list \<Rightarrow> nc_group \<Rightarrow> nc_group" where
  "set_grp_variables vs g = Group (grp_attrs g) (grp_dimensions g) (grp_groups g) vs"

text \<open>
  A reference to the object a name denotes inside a group: the entry of that name in the
  group's table of child groups, or in its table of variables.
\<close>

datatype nc_ref = Ref_group | Ref_variable

text \<open>
  \<^verbatim>\<open>group[name]\<close>: the child group of that name, else the variable of that name. The
  handlers trap \<^verbatim>\<open>KeyError\<close> for a name that denotes nothing, and it is modelled so.
\<close>

definition group_getitem :: "nc_group \<Rightarrow> string \<Rightarrow> error + nc_ref" where
  "group_getitem g name =
     (if has_key (grp_groups g) name then Inr Ref_group
      else if has_key (grp_variables g) name then Inr Ref_variable
      else Inl (KeyError Missing_key))"

text \<open>\<^verbatim>\<open>setncatts(d)\<close>: every pair of \<open>d\<close> is set, in order.\<close>

definition setncatts :: "(string \<times> pyval) list \<Rightarrow> (string \<times> pyval) list \<Rightarrow> (string \<times> pyval) list" where
  "setncatts d attrs = foldl (\<lambda>a kv. AList.update (fst kv) (snd kv) a) attrs d"

text \<open>The lengths of named dimensions; \<open>None\<close> when one of them does not exist.\<close>

fun dimension_lengths :: "(string \<times> nat) list \<Rightarrow> string list \<Rightarrow> nat list option" where
  "dimension_lengths table [] = Some []"
| "dimension_lengths table (d # ds) =
     (case map_of table d of
        None \<Rightarrow> None
      | Some n \<Rightarrow> map_option ((#) n) (dimension_lengths table ds))"

text \<open>
  \<^verbatim>\<open>var[:] = data\<close> and \<^verbatim>\<open>var[length, :] = data\<close>. The elements of the value given are
  stored as they are; the second form adds one entry along the leading axis. The library's
  own checks of the value against the variable's datatype and extent are not modelled.
\<close>

fun elements :: "pyval \<Rightarrow> pyval list" where
  "elements (PArray shp xs) = xs"
| "elements (PList xs) = xs"
| "elements (PTuple xs) = xs"
| "elements v = [v]"


definition assign_entry :: "nat \<Rightarrow> pyval \<Rightarrow> nc_variable \<Rightarrow> nc_variable" where
  "assign_entry len data v =
     v\<lparr>var_shape := Suc len # tl (var_shape v),
       var_data := var_data v @ elements data\<rparr>"


section \<open>Type handlers: state\<close>

datatype handler_class = NCArray | NCFloat | NCInt | NCIterable | NCQuantity | NCString | NCDict

text \<open>The property \<^verbatim>\<open>_dtype\<close> of each class.\<close>

fun dtype_of :: "handler_class \<Rightarrow> pyclass" where
  "dtype_of NCArray = Cls_ndarray"
| "dtype_of NCFloat = Cls_float"
| "dtype_of NCInt = Cls_int"
| "dtype_of NCIterable = Cls_Iterable"
| "dtype_of NCQuantity = Cls_Quantity"
| "dtype_of NCString = Cls_str"
| "dtype_of NCDict = Cls_dict"

text \<open>\<^verbatim>\<open>_dtype_type_string\<close> of each class, read through the property \<^verbatim>\<open>type_string\<close>.\<close>

fun type_string :: "handler_class \<Rightarrow> string" where
  "type_string NCArray = ''numpy.ndarray''"
| "type_string NCFloat = ''float''"
| "type_string NCInt = ''int''"
| "type_string NCIterable = ''iterable''"
| "type_string NCQuantity = ''quantity''"
| "type_string NCString = ''str''"
| "type_string NCDict = ''dict''"

text \<open>
  The two functions \<^verbatim>\<open>NCQuantity._determine_data_information\<close> stores in
  \<^verbatim>\<open>_compare_shape\<close>: \<^verbatim>\<open>lambda x: x.shape\<close> and \<^verbatim>\<open>lambda x: 1\<close>. (The third,
  \<^verbatim>\<open>lambda x: tuple(len(x))\<close>, stands after a statement that always raises.)
\<close>

datatype shape_function = By_shape | By_one

text \<open>The encoder and decoder pairs \<^verbatim>\<open>_set_codifiers\<close> chooses from.\<close>

datatype codifier = Int_codifier | Float_codifier | Iterable_codifier | Array_codifier

text \<open>A shape as the handlers compute it: the tuple \<^verbatim>\<open>data.shape\<close>, or an integer.\<close>

datatype data_shape = Shape_tuple "nat list" | Shape_int int

fun shape_value :: "data_shape \<Rightarrow> pyval" where
  "shape_value (Shape_tuple shp) = PTuple (map (\<lambda>n. PInt (int n)) shp)"
| "shape_value (Shape_int n) = PInt n"

text \<open>
  A handler instance. \<open>bound_target\<close> is \<^verbatim>\<open>_bound_target\<close>: \<open>None\<close>, or a reference to
  the object named \<open>target\<close> inside \<open>storage_object\<close>. \<open>parent_dimensions\<close> is the dimension
  table of \<^verbatim>\<open>_parent_handler.ncfile\<close>, the only part of the parent a handler uses.
  The attributes \<^verbatim>\<open>_save_shape\<close>, \<^verbatim>\<open>_unit\<close>, \<^verbatim>\<open>_compare_shape\<close> and
  \<^verbatim>\<open>_encoder\<close>/\<^verbatim>\<open>_decoder\<close> do not exist until a method assigns them; \<open>None\<close> is the
  missing attribute. \<open>warnings\<close> counts the calls of \<^verbatim>\<open>warnings.warn\<close>.
\<close>

record handler =
  cls :: handler_class
  target :: string
  bound_target :: "nc_ref option"
  parent_dimensions :: "(string \<times> nat) list"
  storage_object :: nc_group
  metadata_buffer :: "(string \<times> pyval) list"
  output_mode :: "string option"
  save_shape :: "pyval option"
  unit_attr :: "pyval option"
  compare_shape :: "shape_function option"
  codifiers :: "codifier option"
  warnings :: nat

text \<open>\<^verbatim>\<open>NCVariableTypeHandler.__init__\<close> (lines 353-380).\<close>

definition new_handler ::
  "handler_class \<Rightarrow> (string \<times> nat) list \<Rightarrow> string \<Rightarrow> nc_group \<Rightarrow> handler" where
  "new_handler c file_dimensions name storage =
     \<lparr>cls = c, target = name, bound_target = None, parent_dimensions = file_dimensions,
      storage_object = storage, metadata_buffer = [], output_mode = None,
      save_shape = None, unit_attr = None, compare_shape = None, codifiers = None,
      warnings = 0\<rparr>"

text \<open>
  A method call returns a value or raises, and in both cases leaves the handler as the
  statements executed so far have changed it.
\<close>

type_synonym 'a outcome = "(error + 'a) \<times> handler"

definition and_then :: "'a outcome \<Rightarrow> ('a \<Rightarrow> handler \<Rightarrow> 'b outcome) \<Rightarrow> 'b outcome" where
  "and_then m f = (case m of (Inl e, h) \<Rightarrow> (Inl e, h) | (Inr x, h) \<Rightarrow> f x h)"

subsection \<open>The bound object\<close>

definition bound_variable :: "handler \<Rightarrow> nc_variable option" where
  "bound_variable h =
     (case bound_target h of
        Some Ref_variable \<Rightarrow> map_of (grp_variables (storage_object h)) (target h)
      | _ \<Rightarrow> None)"

definition bound_attrs :: "handler \<Rightarrow> (string \<times> pyval) list option" where
  "bound_attrs h =
     (case bound_target h of
        None \<Rightarrow> None
      | Some Ref_variable \<Rightarrow>
          map_option var_attrs (map_of (grp_variables (storage_object h)) (target h))
      | Some Ref_group \<Rightarrow>
          map_option grp_attrs (map_of (grp_groups (storage_object h)) (target h)))"

definition update_bound_variable :: "(nc_variable \<Rightarrow> nc_variable) \<Rightarrow> handler \<Rightarrow> handler" where
  "update_bound_variable f h =
     h\<lparr>storage_object :=
         set_grp_variables (AList.map_entry (target h) f (grp_variables (storage_object h)))
           (storage_object h)\<rparr>"

definition update_bound_group :: "(nc_group \<Rightarrow> nc_group) \<Rightarrow> handler \<Rightarrow> handler" where
  "update_bound_group f h =
     h\<lparr>storage_object :=
         set_grp_groups (AList.map_entry (target h) f (grp_groups (storage_object h)))
           (storage_object h)\<rparr>"

definition update_bound_attrs ::
  "((string \<times> pyval) list \<Rightarrow> (string \<times> pyval) list) \<Rightarrow> handler \<Rightarrow> handler" where
  "update_bound_attrs f h =
     (case bound_target h of
        None \<Rightarrow> h
      | Some Ref_variable \<Rightarrow> update_bound_variable (\<lambda>v. v\<lparr>var_attrs := f (var_attrs v)\<rparr>) h
      | Some Ref_group \<Rightarrow> update_bound_group (\<lambda>g. set_grp_attrs (f (grp_attrs g)) g) h)"

text \<open>\<^verbatim>\<open>self._bound_target.getncattr(name)\<close>: \<^verbatim>\<open>AttributeError\<close> when there is none.\<close>

definition getncattr :: "handler \<Rightarrow> string \<Rightarrow> error + pyval" where
  "getncattr h name =
     (case bound_attrs h of
        None \<Rightarrow> Inl (AttributeError No_attribute)
      | Some attrs \<Rightarrow>
          (case map_of attrs name of
             None \<Rightarrow> Inl (AttributeError No_attribute)
           | Some v \<Rightarrow> Inr v))"

text \<open>\<^verbatim>\<open>self._bound_target.shape\<close>; a group has no shape.\<close>

definition bound_shape :: "handler \<Rightarrow> error + nat list" where
  "bound_shape h =
     (case bound_variable h of
        None \<Rightarrow> Inl (AttributeError No_attribute)
      | Some v \<Rightarrow> Inr (var_shape v))"

subsection \<open>Metadata\<close>

text \<open>
  \<^verbatim>\<open>add_metadata\<close> (lines 526-541) tests \<^verbatim>\<open>not self._bound_target\<close>; an object of the
  container library counts as true, so the test is whether the handler is bound.
\<close>

definition add_metadata :: "string \<Rightarrow> pyval \<Rightarrow> handler \<Rightarrow> handler" where
  "add_metadata name v h =
     (if bound_target h = None
      then h\<lparr>metadata_buffer := AList.update name v (metadata_buffer h)\<rparr>
      else update_bound_attrs (AList.update name v) h)"

text \<open>\<^verbatim>\<open>_dump_metadata_buffer\<close> (lines 543-550).\<close>

definition dump_metadata_buffer :: "handler \<Rightarrow> unit outcome" where
  "dump_metadata_buffer h =
     (if bound_target h = None then (Inl UnboundLocalError, h)
      else (Inr (), (update_bound_attrs (setncatts (metadata_buffer h)) h)\<lparr>metadata_buffer := []\<rparr>))"

text \<open>
  \<^verbatim>\<open>_check_write_append\<close> (lines 583-591): the two values it assigns to
  \<^verbatim>\<open>_output_mode\<close> are \<^verbatim>\<open>'a'\<close> and \<^verbatim>\<open>'r'\<close>.
\<close>

definition check_write_append :: "handler \<Rightarrow> unit outcome" where
  "check_write_append h =
     (case getncattr h ''IODriver_Appendable'' of
        Inl e \<Rightarrow> (Inl e, h)
      | Inr v \<Rightarrow>
          (case truthy v of
             Inl e \<Rightarrow> (Inl e, h)
           | Inr b \<Rightarrow> (Inr (), h\<lparr>output_mode := Some (if b then ''a'' else ''r'')\<rparr>)))"

text \<open>
  \<^verbatim>\<open>_attempt_storage_read\<close> (lines 593-610). When the stored type tag differs, the
  \<^verbatim>\<open>raise TypeError(...)\<close> first evaluates \<^verbatim>\<open>"...".foramt(...)\<close>; a string has no such
  attribute, so what is raised is an \<^verbatim>\<open>AttributeError\<close>, which the \<^verbatim>\<open>except\<close> clause of
  the same \<^verbatim>\<open>try\<close> turns into the warning.
\<close>

definition warn :: "handler \<Rightarrow> handler" where
  "warn h = h\<lparr>warnings := Suc (warnings h)\<rparr>"

definition attempt_storage_read :: "handler \<Rightarrow> unit outcome" where
  "attempt_storage_read h =
     (case group_getitem (storage_object h) (target h) of
        Inl e \<Rightarrow> (Inl e, h)
      | Inr r \<Rightarrow>
          (let h1 = h\<lparr>bound_target := Some r\<rparr> in
           case getncattr h1 ''IODriver_Type'' of
             Inl e \<Rightarrow> (Inr (), warn h1)
           | Inr t \<Rightarrow>
               if t \<noteq> PStr (type_string (cls h1)) then (Inr (), warn h1)
               else (Inr (), h1)))"

subsection \<open>Dimensions\<close>

text \<open>
  \<^verbatim>\<open>check_scalar_dimension\<close>, \<^verbatim>\<open>check_infinite_dimension\<close> and
  \<^verbatim>\<open>check_iterable_dimension\<close> (lines 233-275), on the dimension table of the file. The
  unlimited dimension is created with length 0.
\<close>

definition check_scalar_dimension :: "(string \<times> nat) list \<Rightarrow> (string \<times> nat) list" where
  "check_scalar_dimension dims =
     (if \<not> has_key dims ''scalar'' then dims @ [(''scalar'', 1)] else dims)"

definition check_infinite_dimension :: "(string \<times> nat) list \<Rightarrow> (string \<times> nat) list" where
  "check_infinite_dimension dims =
     (if \<not> has_key dims ''iteration'' then dims @ [(''iteration'', 0)] else dims)"

definition iterable_name :: "nat \<Rightarrow> string" where
  "iterable_name n = ''iterable'' @ string_of_nat n"

definition check_iterable_dimension ::
  "(string \<times> nat) list \<Rightarrow> pyval \<Rightarrow> error + (string \<times> nat) list" where
  "check_iterable_dimension dims len =
     (case len of
        PInt n \<Rightarrow>
          if n < 0 then Inl (ValueError Negative_length)
          else if \<not> has_key dims (iterable_name (nat n))
               then Inr (dims @ [(iterable_name (nat n), nat n)])
               else Inr dims
      | _ \<Rightarrow> Inl (TypeError Length_not_integer))"

text \<open>
  The loop \<^verbatim>\<open>for length in data_shape: check_iterable_dimension(...); dims.append(...)\<close>
  of the array-like \<^verbatim>\<open>_bind_write\<close> and \<^verbatim>\<open>_bind_append\<close>.
\<close>

fun iterable_dimensions ::
  "(string \<times> nat) list \<Rightarrow> nat list \<Rightarrow> error + ((string \<times> nat) list \<times> string list)" where
  "iterable_dimensions dims [] = Inr (dims, [])"
| "iterable_dimensions dims (n # ns) =
     (case check_iterable_dimension dims (PInt (int n)) of
        Inl e \<Rightarrow> Inl e
      | Inr dims1 \<Rightarrow>
          (case iterable_dimensions dims1 ns of
             Inl e \<Rightarrow> Inl e
           | Inr (dims2, names) \<Rightarrow> Inr (dims2, iterable_name n # names)))"

text \<open>
  \<^verbatim>\<open>self._bound_target = self._storage_object.createVariable(self._target, datatype,
  dimensions=...)\<close>. The library refuses a dimension that does not exist and a name that is
  taken.
\<close>

definition createVariable :: "pyval \<Rightarrow> string list \<Rightarrow> handler \<Rightarrow> unit outcome" where
  "createVariable datatype dimensions h =
     (case dimension_lengths (grp_dimensions (storage_object h) @ parent_dimensions h) dimensions of
        None \<Rightarrow> (Inl SubstrateError, h)
      | Some shp \<Rightarrow>
          if has_key (grp_variables (storage_object h)) (target h)
             \<or> has_key (grp_groups (storage_object h)) (target h)
          then (Inl SubstrateError, h)
          else (Inr (),
                h\<lparr>storage_object :=
                    set_grp_variables
                      (grp_variables (storage_object h) @
                         [(target h,
                           \<lparr>var_datatype = datatype, var_dimensions = dimensions,
                            var_shape = shp, var_attrs = [], var_data = []\<rparr>)])
                      (storage_object h),
                  bound_target := Some Ref_variable\<rparr>))"

text \<open>
  \<^verbatim>\<open>self._bound_target = self._storage_object.createGroup(self._target)\<close>: the group of
  that name, created when there is none.
\<close>

definition createGroup_bound :: "handler \<Rightarrow> handler" where
  "createGroup_bound h =
     (if has_key (grp_groups (storage_object h)) (target h)
      then h\<lparr>bound_target := Some Ref_group\<rparr>
      else h\<lparr>storage_object :=
               set_grp_groups (grp_groups (storage_object h) @ [(target h, empty_group)])
                 (storage_object h),
             bound_target := Some Ref_group\<rparr>)"

section \<open>Encoders and decoders\<close>

text \<open>\<^verbatim>\<open>len(v)\<close> and \<^verbatim>\<open>v[0]\<close>.\<close>

fun py_len :: "pyval \<Rightarrow> error + nat" where
  "py_len (PList xs) = Inr (length xs)"
| "py_len (PTuple xs) = Inr (length xs)"
| "py_len (PStr s) = Inr (length s)"
| "py_len (PDict kvs) = Inr (length kvs)"
| "py_len (PArray shp xs) = (case shp of [] \<Rightarrow> Inl (TypeError No_len) | n # rest \<Rightarrow> Inr n)"
| "py_len (PQuantity v u) = py_len v"
| "py_len v = Inl (TypeError No_len)"

fun py_first :: "pyval \<Rightarrow> error + pyval" where
  "py_first (PList xs) = (case xs of [] \<Rightarrow> Inl IndexError | x # rest \<Rightarrow> Inr x)"
| "py_first (PTuple xs) = (case xs of [] \<Rightarrow> Inl IndexError | x # rest \<Rightarrow> Inr x)"
| "py_first (PStr s) = (case s of [] \<Rightarrow> Inl IndexError | c # rest \<Rightarrow> Inr (PStr [c]))"
| "py_first (PDict kvs) = Inl (KeyError Missing_key)"
| "py_first (PArray shp xs) =
     (case shp of
        [] \<Rightarrow> Inl IndexError
      | n # rest \<Rightarrow>
          if n = 0 then Inl IndexError
          else if rest = [] then (case xs of [] \<Rightarrow> Inl IndexError | x # others \<Rightarrow> Inr x)
          else Inr (PArray rest (take (prod_list rest) xs)))"
| "py_first (PQuantity v u) =
     (case py_first v of Inl e \<Rightarrow> Inl e | Inr x \<Rightarrow> Inr (PQuantity x u))"
| "py_first v = Inl (TypeError Not_subscriptable)"

text \<open>The encoders (lines 626-677). Those for integers, floats and arrays return their argument.\<close>

definition NCStringEncoder :: "pyval \<Rightarrow> pyval" where
  "NCStringEncoder data = PArray [1] [data]"

definition NCIterableEncoder :: "pyval \<Rightarrow> error + pyval" where
  "NCIterableEncoder data =
     (case py_len data of
        Inl e \<Rightarrow> Inl e
      | Inr nelements \<Rightarrow>
          (case py_first data of
             Inl e \<Rightarrow> Inl e
           | Inr x \<Rightarrow>
               Inr (PTuple [PInt (int nelements), PClass (py_type x),
                            PStr (typename (py_type x))])))"

fun encoder :: "codifier \<Rightarrow> pyval \<Rightarrow> error + pyval" where
  "encoder Int_codifier data = Inr data"
| "encoder Float_codifier data = Inr data"
| "encoder Array_codifier data = Inr data"
| "encoder Iterable_codifier data = NCIterableEncoder data"











section \<open>Type handlers: binding\<close>

text \<open>
  \<^verbatim>\<open>NCQuantity._set_codifiers\<close> (lines 1343-1358). The last test is
  \<^verbatim>\<open>'ndarray' in stype\<close>, a substring test on a string and a membership test on a
  container.
\<close>

definition set_codifiers :: "pyval \<Rightarrow> handler \<Rightarrow> unit outcome" where
  "set_codifiers stype h =
     (if stype = PStr ''int'' then (Inr (), h\<lparr>codifiers := Some Int_codifier\<rparr>)
      else if stype = PStr ''float'' then (Inr (), h\<lparr>codifiers := Some Float_codifier\<rparr>)
      else if stype = PStr ''list'' \<or> stype = PStr ''tuple''
      then (Inr (), h\<lparr>codifiers := Some Iterable_codifier\<rparr>)
      else
        (case (case stype of
                 PStr s \<Rightarrow> Inr (contains ''ndarray'' s)
               | PList xs \<Rightarrow> Inr (PStr ''ndarray'' \<in> set xs)
               | PTuple xs \<Rightarrow> Inr (PStr ''ndarray'' \<in> set xs)
               | PArray shp xs \<Rightarrow> Inr (PStr ''ndarray'' \<in> set xs)
               | PDict kvs \<Rightarrow> Inr (has_key kvs ''ndarray'')
               | _ \<Rightarrow> Inl (TypeError Not_iterable)) of
           Inl e \<Rightarrow> (Inl e, h)
         | Inr True \<Rightarrow> (Inr (), h\<lparr>codifiers := Some Array_codifier\<rparr>)
         | Inr False \<Rightarrow> (Inl (TypeError Unknown_quantity_type), h)))"

text \<open>
  \<^verbatim>\<open>_bind_read\<close>. \<^verbatim>\<open>NCString\<close> (lines 1374-1378) and \<^verbatim>\<open>NCDict\<close> (lines 1472-1476)
  only attempt the storage read. \<^verbatim>\<open>NCArray\<close>, \<^verbatim>\<open>NCFloat\<close>, \<^verbatim>\<open>NCInt\<close> and
  \<^verbatim>\<open>NCIterable\<close> (lines 698-709, 830-841, 936-947, 1042-1053) then resolve the output
  mode and record the shape; \<^verbatim>\<open>NCQuantity\<close> (lines 1172-1185) also reads the unit and
  sets the codifiers.
\<close>

definition bind_read :: "handler \<Rightarrow> unit outcome" where
  "bind_read h =
     (if cls h = NCString \<or> cls h = NCDict then attempt_storage_read h
      else
        and_then (attempt_storage_read h) (\<lambda>u h.
        and_then (check_write_append h) (\<lambda>u h.
          (case bound_shape h of
             Inl e \<Rightarrow> (Inl e, h)
           | Inr shp \<Rightarrow>
               (let h1 = h\<lparr>save_shape :=
                              Some (shape_value (Shape_tuple
                                (if output_mode h = Some ''a'' then tl shp else shp)))\<rparr>
                in if cls h = NCQuantity
                   then (case getncattr h1 ''IODriver_Unit'' of
                           Inl e \<Rightarrow> (Inl e, h1)
                         | Inr unit_name \<Rightarrow>
                             (let h2 = h1\<lparr>unit_attr := Some unit_name\<rparr>
                              in case getncattr h2 ''type'' of
                                   Inl e \<Rightarrow> (Inl e, h2)
                                 | Inr t \<Rightarrow> set_codifiers t h2))
                   else (Inr (), h1))))))"

subsection \<open>What a handler learns from the data\<close>

text \<open>
  The \<^verbatim>\<open>dtype\<close> of an array, as the class of its elements, and its string form.
\<close>

definition array_dtype :: "pyval list \<Rightarrow> pyclass" where
  "array_dtype xs = (case xs of [] \<Rightarrow> Cls_float | x # rest \<Rightarrow> py_type x)"

definition dtype_name :: "pyclass \<Rightarrow> string" where
  "dtype_name c =
     (if c = Cls_int then ''int64'' else if c = Cls_float then ''float64''
      else if c = Cls_bool then ''bool'' else ''object'')"

text \<open>\<^verbatim>\<open>NCArray._determine_data_information\<close> (lines 809-815).\<close>

definition NCArray_determine_data_information ::
  "pyval \<Rightarrow> error + (nat list \<times> pyclass \<times> string)" where
  "NCArray_determine_data_information data =
     (case data of
        PArray shp xs \<Rightarrow> Inr (shp, array_dtype xs, typename (py_type data))
      | PQuantity (PArray shp xs) u \<Rightarrow> Inr (shp, array_dtype xs, typename (py_type data))
      | _ \<Rightarrow> Inl (AttributeError No_attribute))"

text \<open>
  \<^verbatim>\<open>NCIterable._determine_data_information\<close> (lines 1151-1157): the base type it
  returns is the first element \<^verbatim>\<open>data[0]\<close> itself, and the shape is \<^verbatim>\<open>len(data)\<close>.
\<close>

definition NCIterable_determine_data_information ::
  "pyval \<Rightarrow> error + (nat \<times> pyval \<times> string)" where
  "NCIterable_determine_data_information data =
     (case py_first data of
        Inl e \<Rightarrow> Inl e
      | Inr x \<Rightarrow>
          (case py_len data of
             Inl e \<Rightarrow> Inl e
           | Inr n \<Rightarrow> Inr (n, x, typename (py_type data))))"

text \<open>
  \<^verbatim>\<open>NCQuantity._determine_data_information\<close> (lines 1323-1341). A payload that is an
  array has a shape. Any other payload has none, and \<^verbatim>\<open>tuple(len(data_value))\<close> raises
  \<^verbatim>\<open>TypeError\<close> for it whether or not it has a length, so its shape is the integer 1.
  \<^verbatim>\<open>data.unit\<close> exists on a quantity only.
\<close>

definition NCQuantity_determine_data_information ::
  "pyval \<Rightarrow> handler \<Rightarrow> (data_shape \<times> pyval \<times> string) outcome" where
  "NCQuantity_determine_data_information data h =
     (case data of
        PQuantity data_value u \<Rightarrow>
          (case data_value of
             PArray shp xs \<Rightarrow>
               (case xs of
                  [] \<Rightarrow> (Inl IndexError, h)
                | x # rest \<Rightarrow>
                    (Inr (Shape_tuple shp, PClass (py_type x), typename (py_type data_value)),
                     h\<lparr>compare_shape := Some By_shape\<rparr>))
           | _ \<Rightarrow>
               (Inr (Shape_int 1, PClass (py_type data_value), typename (py_type data_value)),
                h\<lparr>compare_shape := Some By_one\<rparr>))
      | _ \<Rightarrow> (Inl (AttributeError No_attribute), h))"

text \<open>\<^verbatim>\<open>str(data.unit)\<close>\<close>

definition unit_string :: "pyval \<Rightarrow> error + string" where
  "unit_string data =
     (case data of PQuantity v u \<Rightarrow> Inr u | _ \<Rightarrow> Inl (AttributeError No_attribute))"

subsection \<open>Creating the object\<close>

text \<open>
  The five \<^verbatim>\<open>add_metadata\<close> calls and the assignment of \<^verbatim>\<open>_unit\<close> that follow
  \<^verbatim>\<open>createVariable\<close> in \<^verbatim>\<open>_bind_write\<close> and \<^verbatim>\<open>_bind_append\<close>.
\<close>

definition stamp :: "pyval \<Rightarrow> string \<Rightarrow> int \<Rightarrow> handler \<Rightarrow> handler" where
  "stamp type_attr unit_name appendable h =
     (let h1 = add_metadata ''IODriver_Type'' (PStr (type_string (cls h))) h;
          h2 = add_metadata ''type'' type_attr h1;
          h3 = h2\<lparr>unit_attr := Some (PStr unit_name)\<rparr>;
          h4 = add_metadata ''IODriver_Unit'' (PStr unit_name) h3;
          h5 = add_metadata ''IODriver_Storage_Type'' (PStr ''variable'') h4
      in add_metadata ''IODriver_Appendable'' (PInt appendable) h5)"

text \<open>The three calls of \<^verbatim>\<open>NCString\<close>, which stamps neither a type name nor a unit.\<close>

definition stamp_string :: "int \<Rightarrow> handler \<Rightarrow> handler" where
  "stamp_string appendable h =
     (let h1 = add_metadata ''IODriver_Type'' (PStr (type_string (cls h))) h;
          h2 = add_metadata ''IODriver_Storage_Type'' (PStr ''variable'') h1
      in add_metadata ''IODriver_Appendable'' (PInt appendable) h2)"

text \<open>
  The loop over \<^verbatim>\<open>data_shape\<close> that ensures one dimension per axis; an integer cannot be
  iterated over.
\<close>

definition axis_dimensions :: "data_shape \<Rightarrow> handler \<Rightarrow> string list outcome" where
  "axis_dimensions data_shape h =
     (case data_shape of
        Shape_int n \<Rightarrow> (Inl (TypeError Not_iterable), h)
      | Shape_tuple shp \<Rightarrow>
          (case iterable_dimensions (parent_dimensions h) shp of
             Inl e \<Rightarrow> (Inl e, h)
           | Inr (dims, names) \<Rightarrow> (Inr names, h\<lparr>parent_dimensions := dims\<rparr>)))"

definition ensure_scalar :: "handler \<Rightarrow> handler" where
  "ensure_scalar h = h\<lparr>parent_dimensions := check_scalar_dimension (parent_dimensions h)\<rparr>"

definition ensure_infinite :: "handler \<Rightarrow> handler" where
  "ensure_infinite h = h\<lparr>parent_dimensions := check_infinite_dimension (parent_dimensions h)\<rparr>"

text \<open>
  The \<^verbatim>\<open>except KeyError:\<close> branch of \<^verbatim>\<open>_bind_write\<close>: it creates the object with the
  appendable flag 0. The result is the local \<^verbatim>\<open>data_type_name\<close>, which only
  \<^verbatim>\<open>NCQuantity\<close> uses afterwards. (\<^verbatim>\<open>NCArray\<close> lines 715-730, \<^verbatim>\<open>NCFloat\<close> 847-858,
  \<^verbatim>\<open>NCInt\<close> 953-964, \<^verbatim>\<open>NCIterable\<close> 1059-1072, \<^verbatim>\<open>NCQuantity\<close> 1191-1214,
  \<^verbatim>\<open>NCString\<close> 1384-1390.)
\<close>

definition create_for_write :: "pyval \<Rightarrow> handler \<Rightarrow> string option outcome" where
  "create_for_write data h =
     (case cls h of
        NCFloat \<Rightarrow>
          and_then (createVariable (PClass Cls_float) [''scalar''] (ensure_scalar h)) (\<lambda>u h.
            (Inr None, stamp (PStr ''float'') ''NoneType'' 0 h))
      | NCInt \<Rightarrow>
          and_then (createVariable (PClass Cls_int) [''scalar''] (ensure_scalar h)) (\<lambda>u h.
            (Inr None, stamp (PStr ''int'') ''NoneType'' 0 h))
      | NCString \<Rightarrow>
          and_then (createVariable (PClass Cls_str) [''scalar''] (ensure_scalar h)) (\<lambda>u h.
            (Inr None, stamp_string 0 h))
      | NCArray \<Rightarrow>
          (case NCArray_determine_data_information data of
             Inl e \<Rightarrow> (Inl e, h)
           | Inr (data_shape, data_base_type, data_type_name) \<Rightarrow>
               and_then (axis_dimensions (Shape_tuple data_shape) h) (\<lambda>dims h.
               and_then (createVariable (PClass data_base_type) dims h) (\<lambda>u h.
                 (Inr None, stamp (PStr (dtype_name data_base_type)) ''NoneType'' 0 h))))
      | NCIterable \<Rightarrow>
          (case NCIterable_determine_data_information data of
             Inl e \<Rightarrow> (Inl e, h)
           | Inr (data_shape, data_base_type, data_type_name) \<Rightarrow>
               (case check_iterable_dimension (parent_dimensions h) (PInt (int data_shape)) of
                  Inl e \<Rightarrow> (Inl e, h)
                | Inr dims \<Rightarrow>
                    and_then (createVariable data_base_type [iterable_name data_shape]
                                (h\<lparr>parent_dimensions := dims\<rparr>)) (\<lambda>u h.
                      (Inr None,
                       (stamp (PStr data_type_name) ''NoneType'' 0 h)
                         \<lparr>save_shape := Some (PInt (int data_shape))\<rparr>))))
      | NCQuantity \<Rightarrow>
          and_then (NCQuantity_determine_data_information data h)
            (\<lambda>(data_shape, data_base_type, data_type_name) h.
               and_then
                 (if data_shape = Shape_int 1
                  then createVariable data_base_type [''scalar''] (ensure_scalar h)
                  else and_then (axis_dimensions data_shape h) (\<lambda>dims h.
                         createVariable data_base_type dims h))
                 (\<lambda>u h.
                    (case unit_string data of
                       Inl e \<Rightarrow> (Inl e, add_metadata ''type'' (PStr data_type_name)
                                         (add_metadata ''IODriver_Type'' (PStr (type_string (cls h))) h))
                     | Inr unit_name \<Rightarrow>
                         (Inr (Some data_type_name),
                          (stamp (PStr data_type_name) unit_name 0 h)
                            \<lparr>save_shape := Some (shape_value data_shape)\<rparr>))))
      | NCDict \<Rightarrow> (Inr None, createGroup_bound h))"

text \<open>
  The \<^verbatim>\<open>except KeyError:\<close> branch of \<^verbatim>\<open>_bind_append\<close>: the unlimited dimension
  \<^verbatim>\<open>iteration\<close> leads and the appendable flag is 1. (\<^verbatim>\<open>NCArray\<close> lines 738-754,
  \<^verbatim>\<open>NCFloat\<close> 866-878, \<^verbatim>\<open>NCInt\<close> 972-984, \<^verbatim>\<open>NCIterable\<close> 1081-1096,
  \<^verbatim>\<open>NCQuantity\<close> 1224-1247, \<^verbatim>\<open>NCString\<close> 1399-1410.)
\<close>

definition create_for_append :: "pyval \<Rightarrow> handler \<Rightarrow> string option outcome" where
  "create_for_append data h =
     (case cls h of
        NCFloat \<Rightarrow>
          and_then (createVariable (PClass Cls_float) [''iteration'', ''scalar'']
                      (ensure_infinite (ensure_scalar h))) (\<lambda>u h.
            (Inr None, stamp (PStr ''float'') ''NoneType'' 1 h))
      | NCInt \<Rightarrow>
          and_then (createVariable (PClass Cls_int) [''iteration'', ''scalar'']
                      (ensure_infinite (ensure_scalar h))) (\<lambda>u h.
            (Inr None, stamp (PStr ''int'') ''NoneType'' 1 h))
      | NCString \<Rightarrow>
          and_then (createVariable (PClass Cls_str) [''iteration'', ''scalar'']
                      (ensure_infinite (ensure_scalar h))) (\<lambda>u h.
            (Inr None, stamp_string 1 h))
      | NCArray \<Rightarrow>
          (case NCArray_determine_data_information data of
             Inl e \<Rightarrow> (Inl e, h)
           | Inr (data_shape, data_base_type, data_type_name) \<Rightarrow>
               and_then (axis_dimensions (Shape_tuple data_shape) (ensure_infinite h)) (\<lambda>dims h.
               and_then (createVariable (PClass data_base_type) (''iteration'' # dims) h) (\<lambda>u h.
                 (Inr None, stamp (PStr (dtype_name data_base_type)) ''NoneType'' 1 h))))
      | NCIterable \<Rightarrow>
          (case NCIterable_determine_data_information data of
             Inl e \<Rightarrow> (Inl e, h)
           | Inr (data_shape, data_base_type, data_type_name) \<Rightarrow>
               (case check_iterable_dimension (parent_dimensions (ensure_infinite h))
                       (PInt (int data_shape)) of
                  Inl e \<Rightarrow> (Inl e, ensure_infinite h)
                | Inr dims \<Rightarrow>
                    and_then (createVariable data_base_type
                                [''iteration'', iterable_name data_shape]
                                (h\<lparr>parent_dimensions := dims\<rparr>)) (\<lambda>u h.
                      (Inr None,
                       (stamp (PStr data_type_name) ''NoneType'' 1 h)
                         \<lparr>save_shape := Some (PInt (int data_shape))\<rparr>))))
      | NCQuantity \<Rightarrow>
          and_then (NCQuantity_determine_data_information data h)
            (\<lambda>(data_shape, data_base_type, data_type_name) h.
               and_then
                 (if data_shape = Shape_int 1
                  then createVariable data_base_type [''iteration'', ''scalar'']
                         (ensure_scalar (ensure_infinite h))
                  else and_then (axis_dimensions data_shape (ensure_infinite h)) (\<lambda>dims h.
                         createVariable data_base_type (''iteration'' # dims) h))
                 (\<lambda>u h.
                    (case unit_string data of
                       Inl e \<Rightarrow> (Inl e, add_metadata ''type'' (PStr data_type_name)
                                         (add_metadata ''IODriver_Type'' (PStr (type_string (cls h))) h))
                     | Inr unit_name \<Rightarrow>
                         (Inr (Some data_type_name),
                          (stamp (PStr data_type_name) unit_name 1 h)
                            \<lparr>save_shape := Some (shape_value data_shape)\<rparr>))))
      | NCDict \<Rightarrow> (Inl NotImplementedError, h))"

text \<open>
  The statements after the \<^verbatim>\<open>try\<close> of \<^verbatim>\<open>_bind_write\<close> and \<^verbatim>\<open>_bind_append\<close>:
  the metadata buffer is dumped and the output mode resolved; \<^verbatim>\<open>NCQuantity\<close> then calls
  \<^verbatim>\<open>_set_codifiers(data_type_name)\<close>, a local that exists only when the \<^verbatim>\<open>except\<close>
  branch ran.
\<close>

definition finish_bind :: "string option \<Rightarrow> handler \<Rightarrow> unit outcome" where
  "finish_bind data_type_name h =
     and_then (dump_metadata_buffer h) (\<lambda>u h.
     and_then (check_write_append h) (\<lambda>u h.
       if cls h = NCQuantity
       then (case data_type_name of
               None \<Rightarrow> (Inl UnboundLocalError, h)
             | Some name \<Rightarrow> set_codifiers (PStr name) h)
       else (Inr (), h)))"

text \<open>
  \<^verbatim>\<open>NCDict._bind_write\<close> (lines 1478-1490) stamps its three attributes whether or not
  the group existed, and does not resolve the output mode.
\<close>

definition NCDict_finish_bind :: "handler \<Rightarrow> unit outcome" where
  "NCDict_finish_bind h =
     (let h1 = add_metadata ''IODriver_Type'' (PStr (type_string (cls h))) h;
          h2 = add_metadata ''IODriver_Storage_Type'' (PStr ''group'') h1;
          h3 = add_metadata ''IODriver_Appendable'' (PInt 0) h2
      in dump_metadata_buffer h3)"

text \<open>\<^verbatim>\<open>_bind_write\<close>: \<^verbatim>\<open>_bind_read\<close> first, and the object is created on \<^verbatim>\<open>KeyError\<close>.\<close>

definition bind_write :: "pyval \<Rightarrow> handler \<Rightarrow> unit outcome" where
  "bind_write data h =
     (case bind_read h of
        (Inl (KeyError k), h1) \<Rightarrow>
          and_then (create_for_write data h1) (\<lambda>data_type_name h2.
            if cls h2 = NCDict then NCDict_finish_bind h2 else finish_bind data_type_name h2)
      | (Inl e, h1) \<Rightarrow> (Inl e, h1)
      | (Inr u, h1) \<Rightarrow>
          if cls h1 = NCDict then NCDict_finish_bind h1 else finish_bind None h1)"

text \<open>
  \<^verbatim>\<open>_bind_append\<close>; that of \<^verbatim>\<open>NCDict\<close> (lines 1492-1494) raises
  \<^verbatim>\<open>NotImplementedError\<close> at once.
\<close>

definition bind_append :: "pyval \<Rightarrow> handler \<Rightarrow> unit outcome" where
  "bind_append data h =
     (if cls h = NCDict then (Inl NotImplementedError, h)
      else
        (case bind_read h of
           (Inl (KeyError k), h1) \<Rightarrow>
             and_then (create_for_append data h1) (\<lambda>data_type_name h2.
               finish_bind data_type_name h2)
         | (Inl e, h1) \<Rightarrow> (Inl e, h1)
         | (Inr u, h1) \<Rightarrow> finish_bind None h1))"

section \<open>Type handlers: write, append, read\<close>

text \<open>
  The type check that opens \<^verbatim>\<open>write\<close> and \<^verbatim>\<open>append\<close>. \<^verbatim>\<open>NCFloat\<close>, \<^verbatim>\<open>NCInt\<close>,
  \<^verbatim>\<open>NCQuantity\<close> and \<^verbatim>\<open>NCString\<close> test \<^verbatim>\<open>type(data) is not self._dtype\<close>;
  \<^verbatim>\<open>NCArray\<close> and \<^verbatim>\<open>NCIterable\<close> test \<^verbatim>\<open>not isinstance(type(data), self._dtype)\<close>,
  that is, whether the class object is an instance of the declared type; \<^verbatim>\<open>NCDict\<close> has
  no check.
\<close>

definition fails_type_check :: "handler \<Rightarrow> pyval \<Rightarrow> bool" where
  "fails_type_check h data =
     (case cls h of
        NCArray \<Rightarrow> \<not> isinstance (PClass (py_type data)) (dtype_of NCArray)
      | NCIterable \<Rightarrow> \<not> isinstance (PClass (py_type data)) (dtype_of NCIterable)
      | NCDict \<Rightarrow> False
      | _ \<Rightarrow> py_type data \<noteq> dtype_of (cls h))"


definition append_mode_guard :: "handler \<Rightarrow> unit outcome" where
  "append_mode_guard h =
     (if output_mode h \<noteq> Some ''a''
      then (Inl (TypeError (if cls h = NCString then Cannot_append else Cannot_overwrite)), h)
      else (Inr (), h))"

text \<open>
  \<^verbatim>\<open>self._compare_shape(data)\<close>: \<^verbatim>\<open>x.shape\<close>, which a quantity passes on to its
  payload, or the constant 1.
\<close>

definition apply_compare_shape :: "shape_function \<Rightarrow> pyval \<Rightarrow> error + pyval" where
  "apply_compare_shape f data =
     (case f of
        By_one \<Rightarrow> Inr (PInt 1)
      | By_shape \<Rightarrow>
          (case data of
             PArray shp xs \<Rightarrow> Inr (shape_value (Shape_tuple shp))
           | PQuantity (PArray shp xs) u \<Rightarrow> Inr (shape_value (Shape_tuple shp))
           | _ \<Rightarrow> Inl (AttributeError No_attribute)))"

text \<open>
  The shape guard of \<^verbatim>\<open>NCArray\<close>, \<^verbatim>\<open>NCIterable\<close> and \<^verbatim>\<open>NCQuantity\<close>:
  \<^verbatim>\<open>if self._save_shape != self._compare_shape(data): raise ValueError(...)\<close>. Either
  attribute may be missing.
\<close>

definition shape_guard :: "pyval \<Rightarrow> handler \<Rightarrow> unit outcome" where
  "shape_guard data h =
     (if cls h = NCArray \<or> cls h = NCIterable \<or> cls h = NCQuantity
      then (case save_shape h of
              None \<Rightarrow> (Inl (AttributeError No_attribute), h)
            | Some saved \<Rightarrow>
                (case compare_shape h of
                   None \<Rightarrow> (Inl (AttributeError No_attribute), h)
                 | Some f \<Rightarrow>
                     (case apply_compare_shape f data of
                        Inl e \<Rightarrow> (Inl e, h)
                      | Inr shp \<Rightarrow>
                          if saved \<noteq> shp then (Inl (ValueError Shape_mismatch), h)
                          else (Inr (), h))))
      else (Inr (), h))"

text \<open>
  The unit guard of \<^verbatim>\<open>NCQuantity\<close>:
  \<^verbatim>\<open>if self._unit != str(data.unit): raise ValueError(...)\<close>.
\<close>

definition unit_guard :: "pyval \<Rightarrow> handler \<Rightarrow> unit outcome" where
  "unit_guard data h =
     (if cls h = NCQuantity
      then (case unit_attr h of
              None \<Rightarrow> (Inl (AttributeError No_attribute), h)
            | Some saved \<Rightarrow>
                (case unit_string data of
                   Inl e \<Rightarrow> (Inl e, h)
                 | Inr u \<Rightarrow>
                     if saved \<noteq> PStr u then (Inl (ValueError Unit_mismatch), h)
                     else (Inr (), h)))
      else (Inr (), h))"

text \<open>What is handed to the variable: the data, encoded as the class prescribes.\<close>

definition package :: "pyval \<Rightarrow> handler \<Rightarrow> error + pyval" where
  "package data h =
     (case cls h of
        NCIterable \<Rightarrow> NCIterableEncoder data
      | NCString \<Rightarrow> Inr (NCStringEncoder data)
      | NCQuantity \<Rightarrow>
          (case data of
             PQuantity data_value u \<Rightarrow>
               (case codifiers h of
                  None \<Rightarrow> Inl (AttributeError No_attribute)
                | Some c \<Rightarrow> encoder c data_value)
           | _ \<Rightarrow> Inl (AttributeError No_attribute))
      | _ \<Rightarrow> Inr data)"


text \<open>\<^verbatim>\<open>length = self._bound_target.shape[0]\<close>\<close>

definition bound_length :: "handler \<Rightarrow> error + nat" where
  "bound_length h =
     (case bound_shape h of
        Inl e \<Rightarrow> Inl e
      | Inr shp \<Rightarrow> (case shp of [] \<Rightarrow> Inl IndexError | n # rest \<Rightarrow> Inr n))"

text \<open>\<^verbatim>\<open>self._bound_target[length, :] = packaged_data\<close>\<close>

definition setitem_entry :: "nat \<Rightarrow> pyval \<Rightarrow> handler \<Rightarrow> unit outcome" where
  "setitem_entry len packaged h =
     (case bound_variable h of
        None \<Rightarrow> (Inl (TypeError No_item_assignment), h)
      | Some v \<Rightarrow> (Inr (), update_bound_variable (assign_entry len packaged) h))"


text \<open>
  \<^verbatim>\<open>append\<close> of the six variable handlers (\<^verbatim>\<open>NCArray\<close> lines 786-806, \<^verbatim>\<open>NCFloat\<close>
  906-921, \<^verbatim>\<open>NCInt\<close> 1012-1027, \<^verbatim>\<open>NCIterable\<close> 1129-1149, \<^verbatim>\<open>NCQuantity\<close> 1295-1321,
  \<^verbatim>\<open>NCString\<close> 1439-1456). \<^verbatim>\<open>NCArray\<close> and \<^verbatim>\<open>NCIterable\<close> bind with
  \<^verbatim>\<open>_bind_write\<close>. \<^verbatim>\<open>NCQuantity\<close> reads the length before it encodes, the others
  after.
\<close>

definition variable_append :: "pyval \<Rightarrow> handler \<Rightarrow> unit outcome" where
  "variable_append data h =
     (if fails_type_check h data then (Inl (TypeError Invalid_data_type), h)
      else
        and_then (if bound_target h = None
                  then (if cls h = NCArray \<or> cls h = NCIterable then bind_write data h
                        else bind_append data h)
                  else (Inr (), h)) (\<lambda>u h.
        and_then (append_mode_guard h) (\<lambda>u h.
        and_then (shape_guard data h) (\<lambda>u h.
        and_then (unit_guard data h) (\<lambda>u h.
          if cls h = NCQuantity
          then (case bound_length h of
                  Inl e \<Rightarrow> (Inl e, h)
                | Inr len \<Rightarrow>
                    (case package data h of
                       Inl e \<Rightarrow> (Inl e, h)
                     | Inr packaged \<Rightarrow> setitem_entry len packaged h))
          else (case package data h of
                  Inl e \<Rightarrow> (Inl e, h)
                | Inr packaged \<Rightarrow>
                    (case bound_length h of
                       Inl e \<Rightarrow> (Inl e, h)
                     | Inr len \<Rightarrow> setitem_entry len packaged h)))))))"




section \<open>The record handler\<close>









definition NCDict_append :: "pyval \<Rightarrow> handler \<Rightarrow> unit outcome" where
  "NCDict_append data h = bind_append data h"

section \<open>The methods of a handler, by class\<close>


definition handler_append :: "pyval \<Rightarrow> handler \<Rightarrow> unit outcome" where
  "handler_append data h =
     (if cls h = NCDict then NCDict_append data h else variable_append data h)"

section \<open>The storage driver\<close>














section \<open>Sequences of calls and the states they reach\<close>



subsection \<open>Example files\<close>



section \<open>Properties of the path model\<close>

lemma split_not_Nil: "split sep s \<noteq> []"
  by (induction s) (auto split: list.splits)

lemma split_append_sep: "split sep (p @ sep # q) = split sep p @ split sep q"
proof (induction p)
  case Nil
  show ?case by simp
next
  case (Cons c cs)
  show ?case
  proof (cases "c = sep")
    case True
    with Cons show ?thesis by simp
  next
    case False
    obtain w ws where "split sep cs = w # ws"
      using split_not_Nil [of sep cs] by (cases "split sep cs") auto
    with Cons False show ?thesis by simp
  qed
qed

lemma split_no_sep: "sep \<notin> set s \<Longrightarrow> split sep s = [s]"
  by (induction s) auto

text \<open>
  Claim C9. Path decomposition is a total function on strings: it splits on the slash and
  drops the empty pieces. The three inputs the specification names decompose as it says;
  no segment of any result is empty; every slash is a segment boundary; and a non-empty
  string without a slash is its own single segment.
\<close>

theorem decompose_path_segments:
  "decompose_path ''///a/b//'' = [''a'', ''b'']
   \<and> decompose_path ''/'' = []
   \<and> decompose_path '''' = []
   \<and> (\<forall>p. '''' \<notin> set (decompose_path p))
   \<and> (\<forall>p q. decompose_path (p @ ''/'' @ q) = decompose_path p @ decompose_path q)
   \<and> (\<forall>p. p \<noteq> '''' \<and> CHR ''/'' \<notin> set p \<longrightarrow> decompose_path p = [p])"
proof -
  have a: "decompose_path ''///a/b//'' = [''a'', ''b'']"
    by (simp add: decompose_path_def)
  have b: "decompose_path ''/'' = []" "decompose_path '''' = []"
    by (simp_all add: decompose_path_def)
  have c: "\<forall>p. '''' \<notin> set (decompose_path p)"
    by (simp add: decompose_path_def)
  have d: "\<forall>p q. decompose_path (p @ ''/'' @ q) = decompose_path p @ decompose_path q"
    by (simp add: decompose_path_def split_append_sep)
  have e: "\<forall>p. p \<noteq> '''' \<and> CHR ''/'' \<notin> set p \<longrightarrow> decompose_path p = [p]"
    by (simp add: decompose_path_def split_no_sep)
  from a b c d e show ?thesis by blast
qed

theorem decompose_path_segments_witness:
  "''ab'' \<noteq> '''' \<and> CHR ''/'' \<notin> set ''ab'' \<and> decompose_path ''ab'' = [''ab'']
   \<and> decompose_path (''x'' @ ''/'' @ ''y'') = [''x'', ''y'']"
proof -
  have h: "''ab'' \<noteq> '''' \<and> CHR ''/'' \<notin> set ''ab''" by simp
  from decompose_path_segments
  have e: "\<forall>p. p \<noteq> '''' \<and> CHR ''/'' \<notin> set p \<longrightarrow> decompose_path p = [p]" by blast
  have "decompose_path ''ab'' = [''ab'']" using e h by blast
  moreover have "decompose_path (''x'' @ ''/'' @ ''y'') = [''x'', ''y'']"
    by (simp add: decompose_path_def)
  ultimately show ?thesis using h by simp
qed

section \<open>Writing to a fresh handler\<close>


section \<open>Appending to an array or a sequence\<close>

text \<open>
  Claim C4. The specification expects every appendable handler to accumulate the values
  appended. The \<^verbatim>\<open>append\<close> of the array handler and of the sequence handler raises
  \<^verbatim>\<open>TypeError\<close> for every value, the handler left as it was: their type check asks
  whether the class of the data, not the data, is an instance of the declared type.
\<close>

theorem array_and_sequence_append_raise:
  "handler_append (PArray [2, 2] [PInt 1, PInt 2, PInt 3, PInt 4])
      (new_handler NCArray [] ''x'' empty_group)
     = (Inl (TypeError Invalid_data_type), new_handler NCArray [] ''x'' empty_group)
   \<and> handler_append (PTuple [PInt 1, PInt 2, PInt 3])
      (new_handler NCIterable [] ''x'' empty_group)
     = (Inl (TypeError Invalid_data_type), new_handler NCIterable [] ''x'' empty_group)
   \<and> (\<forall>data dims name storage.
        handler_append data (new_handler NCArray dims name storage)
          = (Inl (TypeError Invalid_data_type), new_handler NCArray dims name storage))
   \<and> (\<forall>data dims name storage.
        handler_append data (new_handler NCIterable dims name storage)
          = (Inl (TypeError Invalid_data_type), new_handler NCIterable dims name storage))"
proof -
  have a: "handler_append (PArray [2, 2] [PInt 1, PInt 2, PInt 3, PInt 4])
      (new_handler NCArray [] ''x'' empty_group)
     = (Inl (TypeError Invalid_data_type), new_handler NCArray [] ''x'' empty_group)"
    by code_simp
  have b: "handler_append (PTuple [PInt 1, PInt 2, PInt 3])
      (new_handler NCIterable [] ''x'' empty_group)
     = (Inl (TypeError Invalid_data_type), new_handler NCIterable [] ''x'' empty_group)"
    by code_simp
  have c: "\<And>data dims name storage.
        handler_append data (new_handler NCArray dims name storage)
          = (Inl (TypeError Invalid_data_type), new_handler NCArray dims name storage)"
    by (simp add: handler_append_def variable_append_def fails_type_check_def
          isinstance_def new_handler_def)
  have d: "\<And>data dims name storage.
        handler_append data (new_handler NCIterable dims name storage)
          = (Inl (TypeError Invalid_data_type), new_handler NCIterable dims name storage)"
    by (simp add: handler_append_def variable_append_def fails_type_check_def
          isinstance_def new_handler_def)
  from a b c d show ?thesis by blast
qed

section \<open>The record handler and data that is no dictionary\<close>


section \<open>Lemmas on the bound object\<close>

lemma grp_set_simps [simp]:
  "grp_attrs (set_grp_attrs a g) = a"
  "grp_dimensions (set_grp_attrs a g) = grp_dimensions g"
  "grp_groups (set_grp_attrs a g) = grp_groups g"
  "grp_variables (set_grp_attrs a g) = grp_variables g"
  "grp_attrs (set_grp_groups gs g) = grp_attrs g"
  "grp_dimensions (set_grp_groups gs g) = grp_dimensions g"
  "grp_groups (set_grp_groups gs g) = gs"
  "grp_variables (set_grp_groups gs g) = grp_variables g"
  "grp_attrs (set_grp_variables vs g) = grp_attrs g"
  "grp_dimensions (set_grp_variables vs g) = grp_dimensions g"
  "grp_groups (set_grp_variables vs g) = grp_groups g"
  "grp_variables (set_grp_variables vs g) = vs"
  by (simp_all add: set_grp_attrs_def set_grp_groups_def set_grp_variables_def)



lemma bound_attrs_update:
  "bound_attrs (update_bound_attrs f h) = map_option f (bound_attrs h)"
proof (cases "bound_target h")
  case None
  then show ?thesis by (simp add: bound_attrs_def update_bound_attrs_def)
next
  case (Some r)
  show ?thesis
  proof (cases r)
    case Ref_group
    with Some show ?thesis
      by (simp add: bound_attrs_def update_bound_attrs_def update_bound_group_def
            map_of_map_entry split: option.splits)
  next
    case Ref_variable
    with Some show ?thesis
      by (simp add: bound_attrs_def update_bound_attrs_def update_bound_variable_def
            map_of_map_entry split: option.splits)
  qed
qed

lemma update_bound_attrs_fields [simp]:
  "bound_target (update_bound_attrs f h) = bound_target h"
  "cls (update_bound_attrs f h) = cls h"
  "target (update_bound_attrs f h) = target h"
  "metadata_buffer (update_bound_attrs f h) = metadata_buffer h"
  "output_mode (update_bound_attrs f h) = output_mode h"
  "save_shape (update_bound_attrs f h) = save_shape h"
  "unit_attr (update_bound_attrs f h) = unit_attr h"
  "compare_shape (update_bound_attrs f h) = compare_shape h"
  "codifiers (update_bound_attrs f h) = codifiers h"
  by (simp_all add: update_bound_attrs_def update_bound_group_def update_bound_variable_def
        split: option.splits nc_ref.splits)

lemma bound_attrs_field_updates [simp]:
  "bound_attrs (h\<lparr>unit_attr := u\<rparr>) = bound_attrs h"
  "bound_attrs (h\<lparr>save_shape := s\<rparr>) = bound_attrs h"
  "bound_attrs (h\<lparr>metadata_buffer := b\<rparr>) = bound_attrs h"
  "bound_attrs (h\<lparr>output_mode := m\<rparr>) = bound_attrs h"
  "bound_attrs (h\<lparr>codifiers := c\<rparr>) = bound_attrs h"
  "bound_attrs (h\<lparr>compare_shape := cs\<rparr>) = bound_attrs h"
  "bound_attrs (h\<lparr>parent_dimensions := d\<rparr>) = bound_attrs h"
  by (simp_all add: bound_attrs_def split: option.splits nc_ref.splits)

lemma add_metadata_bound:
  "bound_target h \<noteq> None \<Longrightarrow> add_metadata k v h = update_bound_attrs (AList.update k v) h"
  by (auto simp: add_metadata_def)


section \<open>Lemmas on an appendable quantity handler\<close>








lemma setncatts_Nil [simp]: "setncatts [] attrs = attrs"
  by (simp add: setncatts_def)

lemma set_codifiers_ndarray [simp]:
  "set_codifiers (PStr ''numpy.ndarray'') h = (Inr (), h\<lparr>codifiers := Some Array_codifier\<rparr>)"
  by (simp add: set_codifiers_def)

lemma set_codifiers_int [simp]:
  "set_codifiers (PStr ''int'') h = (Inr (), h\<lparr>codifiers := Some Int_codifier\<rparr>)"
  by (simp add: set_codifiers_def)






section \<open>Lemmas on binding a fresh handler\<close>

lemma getncattr_field_updates [simp]:
  "getncattr (h\<lparr>unit_attr := u\<rparr>) k = getncattr h k"
  "getncattr (h\<lparr>save_shape := s\<rparr>) k = getncattr h k"
  "getncattr (h\<lparr>metadata_buffer := b\<rparr>) k = getncattr h k"
  "getncattr (h\<lparr>output_mode := m\<rparr>) k = getncattr h k"
  "getncattr (h\<lparr>codifiers := c\<rparr>) k = getncattr h k"
  "getncattr (h\<lparr>compare_shape := cs\<rparr>) k = getncattr h k"
  "getncattr (h\<lparr>parent_dimensions := d\<rparr>) k = getncattr h k"
  by (simp_all add: getncattr_def)

lemma getncattr_add_metadata:
  "bound_target h \<noteq> None \<Longrightarrow> bound_attrs h = Some as \<Longrightarrow>
     getncattr (add_metadata k v h) k' = (if k' = k then Inr v else getncattr h k')"
  by (auto simp: add_metadata_bound getncattr_def bound_attrs_update update_conv')

lemma add_metadata_fields:
  "bound_target h \<noteq> None \<Longrightarrow>
     bound_target (add_metadata k v h) = bound_target h
     \<and> cls (add_metadata k v h) = cls h
     \<and> target (add_metadata k v h) = target h
     \<and> metadata_buffer (add_metadata k v h) = metadata_buffer h
     \<and> output_mode (add_metadata k v h) = output_mode h
     \<and> save_shape (add_metadata k v h) = save_shape h
     \<and> unit_attr (add_metadata k v h) = unit_attr h
     \<and> compare_shape (add_metadata k v h) = compare_shape h
     \<and> codifiers (add_metadata k v h) = codifiers h
     \<and> bound_attrs (add_metadata k v h) = map_option (AList.update k v) (bound_attrs h)"
  by (simp add: add_metadata_bound bound_attrs_update)









lemma new_handler_fields [simp]:
  "cls (new_handler c dims name storage) = c"
  "target (new_handler c dims name storage) = name"
  "bound_target (new_handler c dims name storage) = None"
  "storage_object (new_handler c dims name storage) = storage"
  "metadata_buffer (new_handler c dims name storage) = []"
  "output_mode (new_handler c dims name storage) = None"
  by (simp_all add: new_handler_def)







section \<open>Lemmas on the first append of a quantity\<close>














section \<open>The output mode\<close>







section \<open>The handler cache and the type tag\<close>









end
